theory Spec2Isabelle
  imports Main "HOL-Library.Sublist" "HOL-Library.Char_ord" "HOL-Library.List_Lexorder"
begin

section \<open>Skills extractor: embedding of \<^verbatim>\<open>skills_extractor.py\<close>\<close>

text \<open>
  The module matches a job description against a fixed vocabulary of technical skills.
  The spaCy pipeline \<^verbatim>\<open>nlp\<close> is a collaborator from outside the module; it is a parameter
  of the embedding (the record \<open>engine\<close>). A Python string is a sequence of
  code points; it is modelled as a \<^typ>\<open>string\<close> whose characters are the code points
  0 to 255 (ASCII and the Latin-1 supplement), and the string methods below do on these
  what Python does. Code points above 255 are not in the type.
\<close>

subsection \<open>The string methods of Python that the module calls\<close>

text \<open>
  The upper-case letters among the code points 0 to 255: \<open>A\<close> to \<open>Z\<close> and the
  letters of \<open>0xc0\<close>..\<open>0xde\<close> (the multiplication sign \<open>0xd7\<close> is not a letter). On
  these \<^verbatim>\<open>str.isupper\<close> holds, and \<^verbatim>\<open>str.lower\<close> moves each of them up by 32.
\<close>

definition is_upper_char :: "char \<Rightarrow> bool" where
  "is_upper_char c =
     (let n = (of_char c :: nat)
      in (65 \<le> n \<and> n \<le> 90) \<or> (192 \<le> n \<and> n \<le> 222 \<and> n \<noteq> 215))"

definition lower_char :: "char \<Rightarrow> char" where
  "lower_char c = (if is_upper_char c then char_of ((of_char c :: nat) + 32) else c)"

text \<open>\<^verbatim>\<open>s.lower()\<close>\<close>

definition str_lower :: "string \<Rightarrow> string" where
  "str_lower s = map lower_char s"

text \<open>
  The digits of \<^verbatim>\<open>str.isdigit\<close>: \<open>0\<close> to \<open>9\<close> and the superscripts two, three
  (\<open>0xb2\<close>, \<open>0xb3\<close>) and one (\<open>0xb9\<close>).
\<close>

definition is_digit_char :: "char \<Rightarrow> bool" where
  "is_digit_char c =
     (let n = (of_char c :: nat) in (48 \<le> n \<and> n \<le> 57) \<or> n = 178 \<or> n = 179 \<or> n = 185)"

text \<open>\<^verbatim>\<open>s.isdigit()\<close>: every character is a digit and there is at least one.\<close>

definition str_isdigit :: "string \<Rightarrow> bool" where
  "str_isdigit s = (s \<noteq> [] \<and> list_all is_digit_char s)"

text \<open>
  The characters \<^verbatim>\<open>str.isspace\<close> accepts, at which \<^verbatim>\<open>str.split\<close> separates: tab,
  line feed, vertical tab, form feed, carriage return, the four separators
  \<open>0x1c\<close>..\<open>0x1f\<close>, the space, next line (\<open>0x85\<close>) and the no-break space (\<open>0xa0\<close>).
\<close>

definition is_space_char :: "char \<Rightarrow> bool" where
  "is_space_char c =
     (let n = (of_char c :: nat)
      in (9 \<le> n \<and> n \<le> 13) \<or> (28 \<le> n \<and> n \<le> 32) \<or> n = 133 \<or> n = 160)"

text \<open>
  \<^verbatim>\<open>s.split()\<close> with no argument: the maximal runs of characters that are not white
  space, in order. \<open>split_from cur rest\<close> carries the word read so far.
\<close>

fun split_from :: "string \<Rightarrow> string \<Rightarrow> string list" where
  "split_from cur [] = (if cur = [] then [] else [cur])"
| "split_from cur (c # cs) =
     (if is_space_char c
      then (if cur = [] then split_from [] cs else cur # split_from [] cs)
      else split_from (cur @ [c]) cs)"

definition str_split :: "string \<Rightarrow> string list" where
  "str_split s = split_from [] s"

text \<open>\<^verbatim>\<open>a in b\<close> on two strings: \<open>a\<close> occurs in \<open>b\<close> as a contiguous piece.\<close>

definition str_in :: "string \<Rightarrow> string \<Rightarrow> bool" where
  "str_in a b = sublist a b"

text \<open>
  \<^verbatim>\<open>sorted(list(s))\<close> for a set of strings. Python compares strings by code point,
  lexicographically; the order in which \<^verbatim>\<open>list\<close> enumerates the set does not show in the
  sorted list (lemma \<open>py_sorted_any_enumeration\<close> below).
\<close>

definition py_sorted :: "string set \<Rightarrow> string list" where
  "py_sorted s = sorted_list_of_set s"

subsection \<open>The vocabulary\<close>

text \<open>
  \<^verbatim>\<open>TECHNICAL_SKILLS\<close> is a set literal; its elements are listed here in the order of the
  source. Membership is \<open>x \<in> set TECHNICAL_SKILLS\<close>. Where the module iterates over the
  set, the iteration order is Python's own; the functions below take it as the list
  \<open>vs\<close>, and \<open>extract_skills_order_irrelevant\<close> shows that it does not matter.
\<close>

definition TECHNICAL_SKILLS :: "string list" where
  "TECHNICAL_SKILLS = [
    ''python'', ''java'', ''javascript'', ''typescript'', ''c++'', ''c#'', ''ruby'', ''php'',
    ''swift'', ''golang'', ''rust'', ''kotlin'', ''scala'', ''perl'', ''r'', ''matlab'',
    ''bash'', ''shell'', ''sql'', ''nosql'', ''html'', ''css'', ''sass'', ''less'', ''django'',
    ''flask'', ''fastapi'', ''spring'', ''react'', ''angular'', ''vue'', ''node.js'',
    ''express'', ''laravel'', ''symfony'', ''ruby on rails'', ''asp.net'', ''jquery'',
    ''bootstrap'', ''tensorflow'', ''pytorch'', ''keras'', ''scikit-learn'', ''pandas'',
    ''numpy'', ''matplotlib'', ''seaborn'', ''d3.js'', ''plotly'', ''selenium'', ''pytest'',
    ''jest'', ''mocha'', ''spacy'', ''mysql'', ''postgresql'', ''mongodb'', ''oracle'',
    ''sql server'', ''sqlite'', ''redis'', ''cassandra'', ''couchbase'', ''dynamodb'',
    ''firebase'', ''neo4j'', ''elasticsearch'', ''mariadb'', ''docker'', ''kubernetes'',
    ''jenkins'', ''github actions'', ''gitlab ci'', ''travis ci'', ''aws'', ''azure'', ''gcp'',
    ''terraform'', ''ansible'', ''chef'', ''puppet'', ''vagrant'', ''prometheus'', ''grafana'',
    ''elk stack'', ''nginx'', ''apache'', ''linux'', ''unix'', ''windows server'', ''vmware'',
    ''virtualbox'', ''git'', ''github'', ''gitlab'', ''bitbucket'', ''svn'', ''mercurial'',
    ''agile'', ''scrum'', ''kanban'', ''waterfall'', ''tdd'', ''bdd'', ''ci/cd'', ''devops'',
    ''microservices'', ''soa'', ''rest'', ''graphql'', ''soap'', ''grpc'', ''machine learning'',
    ''deep learning'', ''artificial intelligence'', ''data science'', ''big data'',
    ''data analysis'', ''data visualization'', ''etl'', ''data mining'', ''nlp'',
    ''computer vision'', ''blockchain'', ''iot'', ''ar/vr'', ''cybersecurity'',
    ''network security'', ''cloud computing'', ''serverless'', ''web development'',
    ''mobile development'', ''responsive design'', ''ux/ui'', ''seo'', ''api design'',
    ''system design'', ''distributed systems'', ''parallel computing'', ''web scraping'',
    ''data engineering'', ''backend'', ''frontend'', ''full stack'', ''qa automation''
   ]"

subsection \<open>The annotation engine\<close>

text \<open>
  What the module asks of \<^verbatim>\<open>nlp\<close> and of the document \<^verbatim>\<open>nlp(t)\<close>:
  the texts of the tokens, \<^verbatim>\<open>nlp.has_pipe("ner")\<close>, the text and label of every entity
  of \<^verbatim>\<open>doc.ents\<close>, \<^verbatim>\<open>nlp.has_pipe("parser")\<close>, and the iteration of
  \<^verbatim>\<open>doc.noun_chunks\<close>. That iteration may raise: it is modelled by the texts of the chunks
  it delivers and the exception that ends it, if one does.
\<close>

datatype py_exception = Exception string

record engine =
  tokenize :: "string \<Rightarrow> string list"
  has_ner :: bool
  ents :: "string \<Rightarrow> (string \<times> string) list"
  has_parser :: bool
  noun_chunks :: "string \<Rightarrow> string list \<times> py_exception option"

subsection \<open>\<^verbatim>\<open>extract_skills\<close>\<close>

text \<open>The loop over the tokens of the document (single word skills).\<close>

definition token_step :: "string list \<Rightarrow> string \<Rightarrow> string set \<Rightarrow> string set" where
  "token_step vs tok acc =
     (if str_lower tok \<in> set vs \<and> length tok > 1 then insert (str_lower tok) acc else acc)"

definition single_word_skills :: "string list \<Rightarrow> string list \<Rightarrow> string set \<Rightarrow> string set" where
  "single_word_skills vs toks acc = fold (token_step vs) toks acc"

text \<open>The loop over the vocabulary (multi-word skills).\<close>

definition phrase_step :: "string \<Rightarrow> string \<Rightarrow> string set \<Rightarrow> string set" where
  "phrase_step txt skill acc =
     (if str_in '' '' skill \<and> str_in (str_lower skill) (str_lower txt)
      then insert (str_lower skill) acc else acc)"

definition multi_word_skills :: "string list \<Rightarrow> string \<Rightarrow> string set \<Rightarrow> string set" where
  "multi_word_skills vs txt acc = fold (phrase_step txt) vs acc"

text \<open>
  The loop over the entities. The inner loop over the words of the candidate stops at the
  first word that is in the vocabulary.
\<close>

fun entity_words :: "string list \<Rightarrow> string \<Rightarrow> string list \<Rightarrow> string set \<Rightarrow> string set" where
  "entity_words vs cand [] acc = acc"
| "entity_words vs cand (w # ws) acc =
     (if w \<in> set vs then insert cand acc else entity_words vs cand ws acc)"

definition entity_step :: "string list \<Rightarrow> string \<times> string \<Rightarrow> string set \<Rightarrow> string set" where
  "entity_step vs ent acc =
     (case ent of (ent_text, label) \<Rightarrow>
        if label \<in> set [''ORG'', ''PRODUCT''] \<and> length ent_text > 1 \<and> \<not> str_isdigit ent_text
        then (let skill_candidate = str_lower ent_text
              in entity_words vs skill_candidate (str_split skill_candidate) acc)
        else acc)"

definition entity_skills ::
  "string list \<Rightarrow> (string \<times> string) list \<Rightarrow> string set \<Rightarrow> string set" where
  "entity_skills vs es acc = fold (entity_step vs) es acc"

text \<open>The loop over the noun chunks, with its inner loop over the vocabulary.\<close>

definition chunk_skill_step :: "string \<Rightarrow> string \<Rightarrow> string set \<Rightarrow> string set" where
  "chunk_skill_step chunk_text skill acc =
     (if str_in skill chunk_text \<and> length skill > 1 then insert skill acc else acc)"

definition chunk_step :: "string list \<Rightarrow> string \<Rightarrow> string set \<Rightarrow> string set" where
  "chunk_step vs chunk acc =
     (let chunk_text = str_lower chunk in fold (chunk_skill_step chunk_text) vs acc)"

definition noun_chunk_skills :: "string list \<Rightarrow> string list \<Rightarrow> string set \<Rightarrow> string set" where
  "noun_chunk_skills vs chunks acc = fold (chunk_step vs) chunks acc"

text \<open>
  The loop over the adjacent tokens, \<^verbatim>\<open>for i in range(len(doc) - 1)\<close>; the range is empty
  for a document without tokens.
\<close>

definition bigram :: "string list \<Rightarrow> nat \<Rightarrow> string" where
  "bigram toks i = str_lower (toks ! i @ '' '' @ toks ! (i + 1))"

definition bigram_step :: "string list \<Rightarrow> string list \<Rightarrow> nat \<Rightarrow> string set \<Rightarrow> string set" where
  "bigram_step vs toks i acc =
     (if bigram toks i \<in> set vs then insert (bigram toks i) acc else acc)"

definition bigram_skills :: "string list \<Rightarrow> string list \<Rightarrow> string set \<Rightarrow> string set" where
  "bigram_skills vs toks acc = fold (bigram_step vs toks) [0..<length toks - 1] acc"

text \<open>The line printed by the handler of the \<^verbatim>\<open>try\<close>.\<close>

definition chunk_warning :: "py_exception \<Rightarrow> string" where
  "chunk_warning ex =
     (case ex of Exception msg \<Rightarrow> ''Warning: Error while processing noun chunks: '' @ msg)"

text \<open>
  The value of \<^verbatim>\<open>extracted_skills\<close> when \<^verbatim>\<open>if nlp.has_pipe("parser")\<close> is reached: the
  loops over the tokens, over the vocabulary and, with entity recognition, over the
  entities have run. \<open>vs\<close> is the order in which Python iterates over
  \<^verbatim>\<open>TECHNICAL_SKILLS\<close>.
\<close>

definition skills_before_chunks :: "string list \<Rightarrow> engine \<Rightarrow> string \<Rightarrow> string set" where
  "skills_before_chunks vs nlp txt =
     (let ltxt = str_lower txt;
          toks = tokenize nlp ltxt;
          s1 = single_word_skills vs toks {};
          s2 = multi_word_skills vs txt s1
      in if has_ner nlp then entity_skills vs (ents nlp ltxt) s2 else s2)"

text \<open>
  The function returns the list of skills; the second component is what it prints. An
  exception raised by the iteration over the noun chunks reaches the handler after the
  chunks delivered before it have been processed.
\<close>

definition extract_skills_iter ::
  "string list \<Rightarrow> engine \<Rightarrow> string \<Rightarrow> string list \<times> string list" where
  "extract_skills_iter vs nlp txt =
     (let ltxt = str_lower txt;
          toks = tokenize nlp ltxt;
          s3 = skills_before_chunks vs nlp txt;
          (s4, printed) =
            (if has_parser nlp
             then (case noun_chunks nlp ltxt of
                     (chunks, raised) \<Rightarrow>
                       (noun_chunk_skills vs chunks s3,
                        case raised of None \<Rightarrow> [] | Some ex \<Rightarrow> [chunk_warning ex]))
             else (bigram_skills vs toks s3, []))
      in (py_sorted s4, printed))"

definition extract_skills :: "engine \<Rightarrow> string \<Rightarrow> string list \<times> string list" where
  "extract_skills nlp txt = extract_skills_iter TECHNICAL_SKILLS nlp txt"

subsection \<open>The endpoints\<close>

record JobDescriptionItem =
  job_id :: string
  "text" :: string

record SkillsResult =
  job_id :: string
  skills :: "string list"
  count :: int

record BatchSkillsResponse =
  results :: "SkillsResult list"
  total_processed :: int

datatype http_error = HTTPException nat string

definition skills_result :: "engine \<Rightarrow> JobDescriptionItem \<Rightarrow> SkillsResult \<times> string list" where
  "skills_result nlp job_desc =
     (case extract_skills nlp (text job_desc) of
        (sk, printed) \<Rightarrow>
          (\<lparr>job_id = JobDescriptionItem.job_id job_desc, skills = sk, count = int (length sk)\<rparr>,
           printed))"

definition extract_skills_from_job_description ::
  "engine \<Rightarrow> JobDescriptionItem \<Rightarrow> http_error + SkillsResult \<times> string list" where
  "extract_skills_from_job_description nlp job_desc =
     (if text job_desc = []
      then Inl (HTTPException 400 ''Job description text cannot be empty'')
      else Inr (skills_result nlp job_desc))"

definition batch_step ::
  "engine \<Rightarrow> JobDescriptionItem \<Rightarrow> SkillsResult list \<times> string list
     \<Rightarrow> SkillsResult list \<times> string list" where
  "batch_step nlp job_desc st =
     (case st of (res, out) \<Rightarrow>
        if text job_desc = [] then (res, out)
        else (case skills_result nlp job_desc of (r, printed) \<Rightarrow> (res @ [r], out @ printed)))"

definition extract_skills_from_batch ::
  "engine \<Rightarrow> JobDescriptionItem list \<Rightarrow> http_error + BatchSkillsResponse \<times> string list" where
  "extract_skills_from_batch nlp job_descriptions =
     (if job_descriptions = []
      then Inl (HTTPException 400 ''Job descriptions list cannot be empty'')
      else (case fold (batch_step nlp) job_descriptions ([], []) of
              (res, out) \<Rightarrow>
                Inr (\<lparr>results = res, total_processed = int (length res)\<rparr>, out)))"

subsection \<open>Notions used in the statements\<close>

text \<open>The test that \<open>entity_step\<close> applies to an entity before it adds its text.\<close>

definition entity_accepted :: "string list \<Rightarrow> string \<times> string \<Rightarrow> bool" where
  "entity_accepted vs ent =
     (case ent of (ent_text, label) \<Rightarrow>
        (label = ''ORG'' \<or> label = ''PRODUCT'') \<and> 1 < length ent_text \<and>
        \<not> str_isdigit ent_text \<and>
        (\<exists>w\<in>set (str_split (str_lower ent_text)). w \<in> set vs))"

text \<open>
  The set \<^verbatim>\<open>extracted_skills\<close> at the \<^verbatim>\<open>return\<close>, written without the loops
  (lemma \<open>set_extract_skills_iter\<close>).
\<close>

definition extracted :: "string list \<Rightarrow> engine \<Rightarrow> string \<Rightarrow> string set" where
  "extracted vs nlp txt =
     skills_before_chunks vs nlp txt
     \<union> (if has_parser nlp
        then {skill \<in> set vs. 1 < length skill \<and>
                (\<exists>chunk\<in>set (fst (noun_chunks nlp (str_lower txt))).
                   str_in skill (str_lower chunk))}
        else {b \<in> set vs. \<exists>i. i + 1 < length (tokenize nlp (str_lower txt)) \<and>
                               b = bigram (tokenize nlp (str_lower txt)) i})"

text \<open>
  An engine annotates a text with pieces of that text: the texts of its tokens, entities
  and noun chunks occur in the text.
\<close>

definition annotations_within :: "engine \<Rightarrow> string \<Rightarrow> bool" where
  "annotations_within nlp t =
     ((\<forall>tok\<in>set (tokenize nlp t). str_in tok t) \<and>
      (\<forall>ent\<in>set (ents nlp t). str_in (fst ent) t) \<and>
      (\<forall>chunk\<in>set (fst (noun_chunks nlp t)). str_in chunk t))"

text \<open>
  Engines for the examples: one that only splits at white space, one that also reports an
  organisation, one whose noun chunks deliver a chunk and then raise, and one that
  reports a product whose two words are separated by a no-break space and begin with
  upper-case letters outside ASCII (\<open>0xc9\<close>, E with acute accent).
\<close>

definition whitespace_engine :: engine where
  "whitespace_engine =
     \<lparr>tokenize = str_split, has_ner = False, ents = (\<lambda>t. []),
      has_parser = False, noun_chunks = (\<lambda>t. ([], None))\<rparr>"

definition entity_engine :: engine where
  "entity_engine =
     \<lparr>tokenize = str_split, has_ner = True, ents = (\<lambda>t. [(''apache kafka inc'', ''ORG'')]),
      has_parser = True, noun_chunks = (\<lambda>t. ([], None))\<rparr>"


definition latin1_entity :: string where
  "latin1_entity = char_of (201 :: nat) # ''cole'' @ [char_of (160 :: nat)] @ ''Python''"

definition latin1_entity_engine :: engine where
  "latin1_entity_engine =
     \<lparr>tokenize = str_split, has_ner = True, ents = (\<lambda>t. [(latin1_entity, ''PRODUCT'')]),
      has_parser = False, noun_chunks = (\<lambda>t. ([], None))\<rparr>"

section \<open>Properties\<close>

subsection \<open>Facts about the string methods\<close>





text \<open>The methods on characters outside ASCII.\<close>

lemma str_split_no_break_space:
  "str_split (''apache'' @ [char_of (160 :: nat)] @ ''kafka'') = [''apache'', ''kafka'']"
  by code_simp

lemma str_lower_latin1:
  "str_lower latin1_entity = char_of (233 :: nat) # ''cole'' @ [char_of (160 :: nat)] @ ''python''"
  by code_simp

lemma str_isdigit_superscript: "str_isdigit [char_of (178 :: nat)]"
  by code_simp


lemma length_str_lower: "length (str_lower s) = length s"
  by (simp add: str_lower_def)

lemma sublist_single: "sublist [x] s \<longleftrightarrow> x \<in> set s"
  by (induction s) (auto simp: sublist_Cons_right)

lemma str_in_space: "str_in '' '' s \<longleftrightarrow> CHR '' '' \<in> set s"
  by (simp add: str_in_def sublist_single)

lemma str_in_iff: "str_in a b \<longleftrightarrow> (\<exists>pre post. b = pre @ a @ post)"
  by (simp add: str_in_def sublist_def)

lemma py_sorted_any_enumeration: "distinct xs \<Longrightarrow> sort xs = py_sorted (set xs)"
  unfolding py_sorted_def
  by (metis sorted_list_of_set_sort_remdups remdups_id_iff_distinct)

lemma set_py_sorted: "finite s \<Longrightarrow> set (py_sorted s) = s"
  by (simp add: py_sorted_def)



lemma TECHNICAL_SKILLS_lower: "list_all (\<lambda>s. str_lower s = s) TECHNICAL_SKILLS"
  by (simp add: TECHNICAL_SKILLS_def str_lower_def lower_char_def is_upper_char_def Let_def)

lemma skill_lower: "s \<in> set TECHNICAL_SKILLS \<Longrightarrow> str_lower s = s"
  using TECHNICAL_SKILLS_lower by (simp add: list_all_iff)

lemma space_not_skill: "'' '' \<notin> set TECHNICAL_SKILLS"
  by (simp add: TECHNICAL_SKILLS_def)

lemma split_from_words:
  "w \<in> set (split_from cur s) \<Longrightarrow> \<forall>c\<in>set cur. \<not> is_space_char c \<Longrightarrow>
   w \<noteq> [] \<and> (\<forall>c\<in>set w. \<not> is_space_char c)"
proof (induction s arbitrary: cur)
  case Nil
  then show ?case
    by (simp split: if_splits)
next
  case (Cons c cs)
  show ?case
  proof (cases "is_space_char c")
    case True
    with Cons.prems(1) have "w = cur \<and> cur \<noteq> [] \<or> w \<in> set (split_from [] cs)"
      by (simp split: if_splits)
    then show ?thesis
    proof
      assume "w = cur \<and> cur \<noteq> []"
      with Cons.prems(2) show ?thesis by simp
    next
      assume "w \<in> set (split_from [] cs)"
      then show ?thesis by (rule Cons.IH) simp
    qed
  next
    case False
    with Cons.prems(1) have "w \<in> set (split_from (cur @ [c]) cs)"
      by simp
    moreover have "\<forall>d\<in>set (cur @ [c]). \<not> is_space_char d"
      using Cons.prems(2) False by simp
    ultimately show ?thesis
      by (rule Cons.IH)
  qed
qed

lemma str_split_words:
  "w \<in> set (str_split s) \<Longrightarrow> w \<noteq> [] \<and> (\<forall>c\<in>set w. \<not> is_space_char c)"
  using split_from_words [of w "[]" s] by (simp add: str_split_def)

subsection \<open>What each loop computes\<close>

lemma fold_union_step:
  assumes "\<And>x acc. step x acc = acc \<union> g x"
  shows "fold step xs acc = acc \<union> (\<Union>x\<in>set xs. g x)"
  by (induction xs arbitrary: acc) (auto simp: assms)

lemma single_word_skills_eq:
  "single_word_skills vs toks acc =
     acc \<union> str_lower ` {tok \<in> set toks. str_lower tok \<in> set vs \<and> 1 < length tok}"
proof -
  have "single_word_skills vs toks acc =
          acc \<union> (\<Union>tok\<in>set toks.
                  if str_lower tok \<in> set vs \<and> 1 < length tok then {str_lower tok} else {})"
    unfolding single_word_skills_def
    by (rule fold_union_step) (simp add: token_step_def)
  also have "\<dots> = acc \<union> str_lower ` {tok \<in> set toks. str_lower tok \<in> set vs \<and> 1 < length tok}"
    by (auto split: if_splits)
  finally show ?thesis .
qed

lemma multi_word_skills_eq:
  "multi_word_skills vs txt acc =
     acc \<union> str_lower ` {skill \<in> set vs. CHR '' '' \<in> set skill \<and>
                                        str_in (str_lower skill) (str_lower txt)}"
proof -
  have "multi_word_skills vs txt acc =
          acc \<union> (\<Union>skill\<in>set vs.
                  if str_in '' '' skill \<and> str_in (str_lower skill) (str_lower txt)
                  then {str_lower skill} else {})"
    unfolding multi_word_skills_def
    by (rule fold_union_step) (simp add: phrase_step_def)
  also have "\<dots> = acc \<union> str_lower ` {skill \<in> set vs. CHR '' '' \<in> set skill \<and>
                                        str_in (str_lower skill) (str_lower txt)}"
    by (auto simp: str_in_space split: if_splits)
  finally show ?thesis .
qed

lemma entity_words_eq:
  "entity_words vs cand ws acc = (if \<exists>w\<in>set ws. w \<in> set vs then insert cand acc else acc)"
  by (induction ws) auto

lemma entity_skills_eq:
  "entity_skills vs es acc =
     acc \<union> (\<lambda>ent. str_lower (fst ent)) ` {ent \<in> set es. entity_accepted vs ent}"
proof -
  have "entity_skills vs es acc =
          acc \<union> (\<Union>ent\<in>set es. if entity_accepted vs ent then {str_lower (fst ent)} else {})"
    unfolding entity_skills_def
    by (rule fold_union_step)
       (auto simp: entity_step_def entity_accepted_def entity_words_eq Let_def split: prod.splits)
  also have "\<dots> = acc \<union> (\<lambda>ent. str_lower (fst ent)) ` {ent \<in> set es. entity_accepted vs ent}"
    by (auto split: if_splits)
  finally show ?thesis .
qed

lemma chunk_step_eq:
  "chunk_step vs chunk acc =
     acc \<union> {skill \<in> set vs. str_in skill (str_lower chunk) \<and> 1 < length skill}"
proof -
  have "chunk_step vs chunk acc =
          acc \<union> (\<Union>skill\<in>set vs.
                  if str_in skill (str_lower chunk) \<and> 1 < length skill then {skill} else {})"
    unfolding chunk_step_def Let_def
    by (rule fold_union_step) (simp add: chunk_skill_step_def)
  also have "\<dots> = acc \<union> {skill \<in> set vs. str_in skill (str_lower chunk) \<and> 1 < length skill}"
    by (auto split: if_splits)
  finally show ?thesis .
qed

lemma noun_chunk_skills_eq:
  "noun_chunk_skills vs chunks acc =
     acc \<union> {skill \<in> set vs. 1 < length skill \<and>
                             (\<exists>chunk\<in>set chunks. str_in skill (str_lower chunk))}"
proof -
  have "noun_chunk_skills vs chunks acc =
          acc \<union> (\<Union>chunk\<in>set chunks.
                  {skill \<in> set vs. str_in skill (str_lower chunk) \<and> 1 < length skill})"
    unfolding noun_chunk_skills_def
    by (rule fold_union_step) (rule chunk_step_eq)
  also have "\<dots> = acc \<union> {skill \<in> set vs. 1 < length skill \<and>
                             (\<exists>chunk\<in>set chunks. str_in skill (str_lower chunk))}"
    by auto
  finally show ?thesis .
qed

lemma bigram_skills_eq:
  "bigram_skills vs toks acc =
     acc \<union> {b \<in> set vs. \<exists>i. i + 1 < length toks \<and> b = bigram toks i}"
proof -
  have "bigram_skills vs toks acc =
          acc \<union> (\<Union>i\<in>set [0..<length toks - 1].
                  if bigram toks i \<in> set vs then {bigram toks i} else {})"
    unfolding bigram_skills_def
    by (rule fold_union_step) (simp add: bigram_step_def)
  also have "\<dots> = acc \<union> {b \<in> set vs. \<exists>i. i + 1 < length toks \<and> b = bigram toks i}"
    by (fastforce simp: less_diff_conv split: if_splits)
  finally show ?thesis .
qed

subsection \<open>The set that is sorted and returned\<close>

lemma skills_before_chunks_eq:
  "skills_before_chunks vs nlp txt =
     str_lower ` {tok \<in> set (tokenize nlp (str_lower txt)).
                   str_lower tok \<in> set vs \<and> 1 < length tok}
     \<union> str_lower ` {skill \<in> set vs. CHR '' '' \<in> set skill \<and>
                                     str_in (str_lower skill) (str_lower txt)}
     \<union> (if has_ner nlp
        then (\<lambda>ent. str_lower (fst ent)) `
               {ent \<in> set (ents nlp (str_lower txt)). entity_accepted vs ent}
        else {})"
  by (simp add: skills_before_chunks_def Let_def single_word_skills_eq multi_word_skills_eq
        entity_skills_eq)


lemma finite_skills_before_chunks: "finite (skills_before_chunks vs nlp txt)"
  by (simp add: skills_before_chunks_eq)

lemma finite_extracted: "finite (extracted vs nlp txt)"
  by (simp add: extracted_def finite_skills_before_chunks)

lemma fst_extract_skills_iter:
  "fst (extract_skills_iter vs nlp txt) = py_sorted (extracted vs nlp txt)"
  by (simp add: extract_skills_iter_def extracted_def Let_def noun_chunk_skills_eq
        bigram_skills_eq split: prod.splits)


lemma set_extract_skills_iter:
  "set (fst (extract_skills_iter vs nlp txt)) = extracted vs nlp txt"
  by (simp add: fst_extract_skills_iter set_py_sorted finite_extracted)

lemma entity_accepted_cong:
  assumes "set vs = set vs'"
  shows "entity_accepted vs = entity_accepted vs'"
  unfolding entity_accepted_def assms ..

lemma extracted_cong:
  assumes "set vs = set vs'"
  shows "extracted vs nlp txt = extracted vs' nlp txt"
  unfolding extracted_def skills_before_chunks_eq entity_accepted_cong [OF assms] assms ..

lemma snd_extract_skills_iter:
  "snd (extract_skills_iter vs nlp txt) =
     (if has_parser nlp
      then (case snd (noun_chunks nlp (str_lower txt)) of
              None \<Rightarrow> [] | Some ex \<Rightarrow> [chunk_warning ex])
      else [])"
  by (simp add: extract_skills_iter_def Let_def split: prod.splits)

lemma set_extract_skills: "set (fst (extract_skills nlp txt)) = extracted TECHNICAL_SKILLS nlp txt"
  by (simp add: extract_skills_def set_extract_skills_iter)

subsection \<open>Facts shared by the statements below\<close>

lemma str_in_Nil: "str_in a [] \<longleftrightarrow> a = []"
  by (simp add: str_in_def)

lemma extracted_empty_text:
  assumes "annotations_within nlp []"
  shows "extracted TECHNICAL_SKILLS nlp [] = {}"
proof -
  have toks: "\<And>tok. tok \<in> set (tokenize nlp []) \<Longrightarrow> tok = []"
    and es: "\<And>ent. ent \<in> set (ents nlp []) \<Longrightarrow> fst ent = []"
    and cs: "\<And>chunk. chunk \<in> set (fst (noun_chunks nlp [])) \<Longrightarrow> chunk = []"
    using assms by (auto simp: annotations_within_def str_in_Nil)
  have low: "str_lower [] = []"
    by (simp add: str_lower_def)
  have "bigram (tokenize nlp []) i = '' ''" if "i + 1 < length (tokenize nlp [])" for i
  proof -
    have "tokenize nlp [] ! i = []" "tokenize nlp [] ! (i + 1) = []"
      using that by (auto intro!: toks)
    then show ?thesis
      by (simp add: bigram_def str_lower_def lower_char_def is_upper_char_def Let_def)
  qed
  then have bg: "{b \<in> set TECHNICAL_SKILLS. \<exists>i. i + 1 < length (tokenize nlp []) \<and>
                     b = bigram (tokenize nlp []) i} = {}"
    using space_not_skill by auto
  have ch: "{skill \<in> set TECHNICAL_SKILLS. 1 < length skill \<and>
              (\<exists>chunk\<in>set (fst (noun_chunks nlp [])). str_in skill (str_lower chunk))} = {}"
    by (auto simp: low str_in_Nil dest!: cs)
  have tk: "{tok \<in> set (tokenize nlp []). str_lower tok \<in> set TECHNICAL_SKILLS \<and>
                1 < length tok} = {}"
    by (auto dest!: toks)
  have ph: "{skill \<in> set TECHNICAL_SKILLS. CHR '' '' \<in> set skill \<and>
                str_in (str_lower skill) []} = {}"
    by (auto simp: str_in_Nil str_lower_def)
  have en: "{ent \<in> set (ents nlp []). entity_accepted TECHNICAL_SKILLS ent} = {}"
    by (auto simp: entity_accepted_def dest!: es)
  have s3: "skills_before_chunks TECHNICAL_SKILLS nlp [] = {}"
    unfolding skills_before_chunks_eq low tk ph en by simp
  show ?thesis
    unfolding extracted_def low s3 bg ch by simp
qed

lemma phrase_in_result:
  assumes "skill \<in> set TECHNICAL_SKILLS" and "CHR '' '' \<in> set skill"
    and "str_in skill (str_lower txt)"
  shows "skill \<in> set (fst (extract_skills nlp txt))"
proof -
  have "str_lower skill = skill"
    using assms(1) by (rule skill_lower)
  with assms have "skill \<in> str_lower ` {s \<in> set TECHNICAL_SKILLS. CHR '' '' \<in> set s \<and>
                                          str_in (str_lower s) (str_lower txt)}"
    by force
  then show ?thesis
    by (simp add: set_extract_skills extracted_def skills_before_chunks_eq)
qed

lemma token_in_result:
  assumes "tok \<in> set (tokenize nlp (str_lower txt))" and "1 < length tok"
    and "str_lower tok \<in> set TECHNICAL_SKILLS"
  shows "str_lower tok \<in> set (fst (extract_skills nlp txt))"
  using assms by (auto simp: set_extract_skills extracted_def skills_before_chunks_eq)

lemma entity_in_result:
  assumes "has_ner nlp" and "(ent_text, label) \<in> set (ents nlp (str_lower txt))"
    and "label = ''ORG'' \<or> label = ''PRODUCT''"
    and "1 < length ent_text" and "\<not> str_isdigit ent_text"
    and "w \<in> set (str_split (str_lower ent_text))" and "w \<in> set TECHNICAL_SKILLS"
  shows "str_lower ent_text \<in> set (fst (extract_skills nlp txt))"
proof -
  have "entity_accepted TECHNICAL_SKILLS (ent_text, label)"
    using assms by (auto simp: entity_accepted_def)
  with assms(2)
  have "str_lower ent_text \<in> (\<lambda>ent. str_lower (fst ent)) `
          {ent \<in> set (ents nlp (str_lower txt)). entity_accepted TECHNICAL_SKILLS ent}"
    by force
  with assms(1) show ?thesis
    by (simp add: set_extract_skills extracted_def skills_before_chunks_eq)
qed


lemma fold_batch_step:
  "fold (batch_step nlp) jds (res, out) =
     (res @ map (\<lambda>jd. fst (skills_result nlp jd)) (filter (\<lambda>jd. text jd \<noteq> []) jds),
      out @ concat (map (\<lambda>jd. snd (skills_result nlp jd)) (filter (\<lambda>jd. text jd \<noteq> []) jds)))"
  by (induction jds arbitrary: res out) (simp_all add: batch_step_def case_prod_beta)

lemma fst_skills_result:
  "fst (skills_result nlp jd) =
     \<lparr>job_id = JobDescriptionItem.job_id jd, skills = fst (extract_skills nlp (text jd)),
      count = int (length (fst (extract_skills nlp (text jd))))\<rparr>"
  by (simp add: skills_result_def case_prod_beta)


text \<open>The function on a sentence, with an engine that splits at white space.\<close>

lemma extract_skills_example:
  "extract_skills whitespace_engine
     ''Looking for a Java developer with Kubernetes and AWS experience'' =
   ([''aws'', ''java'', ''kubernetes''], [])"
  by code_simp

subsection \<open>The claims\<close>

text \<open>
  Claim C1. For every input text, the list returned by \<open>extract_skills\<close> is sorted in
  ascending lexicographic order and has no duplicates: it is equal to
  \<^verbatim>\<open>sorted(set(...))\<close> of itself.
\<close>

theorem extract_skills_sorted_distinct:
  "sorted (fst (extract_skills nlp txt)) \<and> distinct (fst (extract_skills nlp txt)) \<and>
   fst (extract_skills nlp txt) = py_sorted (set (fst (extract_skills nlp txt)))"
  by (simp add: extract_skills_def fst_extract_skills_iter py_sorted_def finite_extracted)

theorem extract_skills_sorted_distinct_witness:
  "sorted (fst (extract_skills whitespace_engine ''SQL Server or Python'')) \<and>
   distinct (fst (extract_skills whitespace_engine ''SQL Server or Python''))"
  using extract_skills_sorted_distinct [of whitespace_engine "''SQL Server or Python''"]
  by blast

text \<open>
  Claim C2. A vocabulary entry that contains a space and occurs in the lower-cased text
  is in the result, whatever the engine can do.
\<close>

theorem phrase_substring_included:
  assumes "skill \<in> set TECHNICAL_SKILLS" and "CHR '' '' \<in> set skill"
    and "str_in skill (str_lower txt)"
  shows "skill \<in> set (fst (extract_skills nlp txt))"
  using assms by (rule phrase_in_result)

theorem phrase_substring_included_witness:
  "''sql server'' \<in> set TECHNICAL_SKILLS \<and> CHR '' '' \<in> set ''sql server'' \<and>
   str_in ''sql server'' (str_lower ''MS SQL Server admin'') \<and>
   ''sql server'' \<in> set (fst (extract_skills entity_engine ''MS SQL Server admin''))"
proof -
  have h1: "''sql server'' \<in> set TECHNICAL_SKILLS"
    by (simp add: TECHNICAL_SKILLS_def)
  have h2: "CHR '' '' \<in> set ''sql server''"
    by simp
  have h3: "str_in ''sql server'' (str_lower ''MS SQL Server admin'')"
    by code_simp
  from phrase_substring_included [OF h1 h2 h3] h1 h2 h3 show ?thesis
    by blast
qed

text \<open>
  Claim C3. Every token of the lower-cased text that is longer than one character and
  whose lower-cased text is a vocabulary entry is in the result; the loop over the tokens
  adds nothing for a token of length at most one, and every string it adds is longer than
  one character.
\<close>

theorem token_exact_included:
  "(tok \<in> set (tokenize nlp (str_lower txt)) \<and> 1 < length tok \<and>
      str_lower tok \<in> set TECHNICAL_SKILLS
      \<longrightarrow> str_lower tok \<in> set (fst (extract_skills nlp txt))) \<and>
   (length tok \<le> 1 \<longrightarrow> token_step TECHNICAL_SKILLS tok acc = acc) \<and>
   (\<forall>s\<in>single_word_skills TECHNICAL_SKILLS (tokenize nlp (str_lower txt)) {}. 1 < length s)"
  by (auto simp: token_in_result token_step_def single_word_skills_eq length_str_lower)

theorem token_exact_included_witness:
  "''python'' \<in> set (tokenize whitespace_engine (str_lower ''Python and R'')) \<and>
   1 < length ''python'' \<and> str_lower ''python'' \<in> set TECHNICAL_SKILLS \<and>
   str_lower ''python'' \<in> set (fst (extract_skills whitespace_engine ''Python and R'')) \<and>
   length ''r'' \<le> 1 \<and> ''r'' \<in> set TECHNICAL_SKILLS \<and>
   token_step TECHNICAL_SKILLS ''r'' {} = {} \<and>
   ''python'' \<in> single_word_skills TECHNICAL_SKILLS
                  (tokenize whitespace_engine (str_lower ''Python and R'')) {}"
proof -
  have toks: "tokenize whitespace_engine (str_lower ''Python and R'') =
                [''python'', ''and'', ''r'']"
    by code_simp
  have low: "str_lower ''python'' = ''python''"
    by (simp add: str_lower_def lower_char_def is_upper_char_def Let_def)
  have py: "''python'' \<in> set TECHNICAL_SKILLS" and r: "''r'' \<in> set TECHNICAL_SKILLS"
    by (simp_all add: TECHNICAL_SKILLS_def)
  have h1: "''python'' \<in> set (tokenize whitespace_engine (str_lower ''Python and R''))"
    unfolding toks by simp
  have h2: "1 < length ''python''" and h3: "length ''r'' \<le> 1"
    by simp_all
  have h4: "str_lower ''python'' \<in> set TECHNICAL_SKILLS"
    unfolding low by (rule py)
  have m: "''python'' \<in> single_word_skills TECHNICAL_SKILLS
                  (tokenize whitespace_engine (str_lower ''Python and R'')) {}"
    unfolding toks single_word_skills_eq using py low by force
  from token_exact_included [of "''python''" whitespace_engine "''Python and R''" "{}"]
    token_exact_included [of "''r''" whitespace_engine "''Python and R''" "{}"]
    h1 h2 h3 h4 r m
  show ?thesis
    by blast
qed

text \<open>
  Claim C4. With entity recognition, for an entity labelled ORG or PRODUCT whose text is
  longer than one character and not purely numeric: if one of the white-space separated
  words of the lower-cased entity text is a vocabulary entry, the whole lower-cased
  entity text is in the result. That text need not be a vocabulary entry.
\<close>

theorem entity_text_included:
  assumes "has_ner nlp" and "(ent_text, label) \<in> set (ents nlp (str_lower txt))"
    and "label = ''ORG'' \<or> label = ''PRODUCT''"
    and "1 < length ent_text" and "\<not> str_isdigit ent_text"
    and "w \<in> set (str_split (str_lower ent_text))" and "w \<in> set TECHNICAL_SKILLS"
  shows "str_lower ent_text \<in> set (fst (extract_skills nlp txt))"
  using assms by (rule entity_in_result)

theorem entity_text_included_witness:
  "has_ner entity_engine \<and>
   (''apache kafka inc'', ''ORG'') \<in> set (ents entity_engine (str_lower ''Apache Kafka Inc'')) \<and>
   1 < length ''apache kafka inc'' \<and> \<not> str_isdigit ''apache kafka inc'' \<and>
   ''apache'' \<in> set (str_split (str_lower ''apache kafka inc'')) \<and>
   ''apache'' \<in> set TECHNICAL_SKILLS \<and>
   str_lower ''apache kafka inc'' \<in> set (fst (extract_skills entity_engine ''Apache Kafka Inc'')) \<and>
   str_lower ''apache kafka inc'' \<notin> set TECHNICAL_SKILLS \<and>
   has_ner latin1_entity_engine \<and>
   (latin1_entity, ''PRODUCT'') \<in> set (ents latin1_entity_engine (str_lower ''x'')) \<and>
   1 < length latin1_entity \<and> \<not> str_isdigit latin1_entity \<and>
   ''python'' \<in> set (str_split (str_lower latin1_entity)) \<and>
   ''python'' \<in> set TECHNICAL_SKILLS \<and>
   char_of (233 :: nat) # ''cole'' @ [char_of (160 :: nat)] @ ''python''
     \<in> set (fst (extract_skills latin1_entity_engine ''x''))"
proof -
  have h1: "has_ner entity_engine"
    by (simp add: entity_engine_def)
  have h2: "(''apache kafka inc'', ''ORG'') \<in>
              set (ents entity_engine (str_lower ''Apache Kafka Inc''))"
    by (simp add: entity_engine_def)
  have h3: "''ORG'' = ''ORG'' \<or> ''ORG'' = ''PRODUCT''"
    by simp
  have h4: "1 < length ''apache kafka inc''"
    by simp
  have h5: "\<not> str_isdigit ''apache kafka inc''"
    by (simp add: str_isdigit_def is_digit_char_def)
  have low: "str_lower ''apache kafka inc'' = ''apache kafka inc''"
    by (simp add: str_lower_def lower_char_def is_upper_char_def Let_def)
  have h6: "''apache'' \<in> set (str_split (str_lower ''apache kafka inc''))"
    unfolding low by (simp add: str_split_def is_space_char_def)
  have h7: "''apache'' \<in> set TECHNICAL_SKILLS"
    by (simp add: TECHNICAL_SKILLS_def)
  have h8: "str_lower ''apache kafka inc'' \<notin> set TECHNICAL_SKILLS"
    unfolding low by (simp add: TECHNICAL_SKILLS_def)
  have k1: "has_ner latin1_entity_engine"
    by (simp add: latin1_entity_engine_def)
  have k2: "(latin1_entity, ''PRODUCT'') \<in> set (ents latin1_entity_engine (str_lower ''x''))"
    by (simp add: latin1_entity_engine_def)
  have k3: "''PRODUCT'' = ''ORG'' \<or> ''PRODUCT'' = ''PRODUCT''"
    by simp
  have k4: "1 < length latin1_entity"
    by (simp add: latin1_entity_def)
  have k5: "\<not> str_isdigit latin1_entity"
    by code_simp
  have k6: "''python'' \<in> set (str_split (str_lower latin1_entity))"
    by code_simp
  have k7: "''python'' \<in> set TECHNICAL_SKILLS"
    by (simp add: TECHNICAL_SKILLS_def)
  have k8: "char_of (233 :: nat) # ''cole'' @ [char_of (160 :: nat)] @ ''python''
              \<in> set (fst (extract_skills latin1_entity_engine ''x''))"
    using entity_text_included [OF k1 k2 k3 k4 k5 k6 k7] unfolding str_lower_latin1 .
  from entity_text_included [OF h1 h2 h3 h4 h5 h6 h7] h1 h2 h4 h5 h6 h7 h8
    k1 k2 k4 k5 k6 k7 k8
  show ?thesis
    by blast
qed

text \<open>
  Claim C5. With an engine that has neither entity recognition nor a parser, the result
  holds the matches of the token loop, of the vocabulary loop and of the loop over
  adjacent tokens, and nothing else: no entity and no noun chunk contributes (the result
  is the same whatever \<open>ents\<close> and \<open>noun_chunks\<close> would deliver). Every pair of
  adjacent tokens whose lower-cased bigram is a vocabulary entry puts that entry in the
  result, and nothing is printed: the call returns without a failure.
\<close>

theorem minimal_engine_degrades:
  assumes "\<not> has_ner nlp" and "\<not> has_parser nlp"
  shows "set (fst (extract_skills nlp txt)) =
           single_word_skills TECHNICAL_SKILLS (tokenize nlp (str_lower txt)) {}
           \<union> multi_word_skills TECHNICAL_SKILLS txt {}
           \<union> bigram_skills TECHNICAL_SKILLS (tokenize nlp (str_lower txt)) {} \<and>
         snd (extract_skills nlp txt) = [] \<and>
         extract_skills (nlp\<lparr>ents := es, noun_chunks := cs\<rparr>) txt = extract_skills nlp txt \<and>
         (\<forall>i. i + 1 < length (tokenize nlp (str_lower txt)) \<and>
              bigram (tokenize nlp (str_lower txt)) i \<in> set TECHNICAL_SKILLS
              \<longrightarrow> bigram (tokenize nlp (str_lower txt)) i \<in> set (fst (extract_skills nlp txt)))"
proof (intro conjI allI impI)
  show "set (fst (extract_skills nlp txt)) =
           single_word_skills TECHNICAL_SKILLS (tokenize nlp (str_lower txt)) {}
           \<union> multi_word_skills TECHNICAL_SKILLS txt {}
           \<union> bigram_skills TECHNICAL_SKILLS (tokenize nlp (str_lower txt)) {}"
    using assms
    by (simp add: set_extract_skills extracted_def skills_before_chunks_eq
          single_word_skills_eq multi_word_skills_eq bigram_skills_eq)
  show "snd (extract_skills nlp txt) = []"
    using assms by (simp add: extract_skills_def snd_extract_skills_iter)
  show "extract_skills (nlp\<lparr>ents := es, noun_chunks := cs\<rparr>) txt = extract_skills nlp txt"
    using assms
    by (simp add: extract_skills_def extract_skills_iter_def skills_before_chunks_def)
  show "bigram (tokenize nlp (str_lower txt)) i \<in> set (fst (extract_skills nlp txt))"
    if "i + 1 < length (tokenize nlp (str_lower txt)) \<and>
        bigram (tokenize nlp (str_lower txt)) i \<in> set TECHNICAL_SKILLS" for i
    using that assms by (auto simp: set_extract_skills extracted_def)
qed

theorem minimal_engine_degrades_witness:
  "\<not> has_ner whitespace_engine \<and> \<not> has_parser whitespace_engine \<and>
   0 + 1 < length (tokenize whitespace_engine (str_lower ''Big Data tools'')) \<and>
   bigram (tokenize whitespace_engine (str_lower ''Big Data tools'')) 0 = ''big data'' \<and>
   ''big data'' \<in> set TECHNICAL_SKILLS \<and>
   ''big data'' \<in> set (fst (extract_skills whitespace_engine ''Big Data tools'')) \<and>
   snd (extract_skills whitespace_engine ''Big Data tools'') = []"
proof -
  have h1: "\<not> has_ner whitespace_engine" and h2: "\<not> has_parser whitespace_engine"
    by (simp_all add: whitespace_engine_def)
  have toks: "tokenize whitespace_engine (str_lower ''Big Data tools'') =
                [''big'', ''data'', ''tools'']"
    by code_simp
  have h3: "0 + 1 < length (tokenize whitespace_engine (str_lower ''Big Data tools''))"
    unfolding toks by simp
  have b: "bigram (tokenize whitespace_engine (str_lower ''Big Data tools'')) 0 = ''big data''"
    unfolding toks by (simp add: bigram_def str_lower_def lower_char_def is_upper_char_def Let_def)
  have h4: "''big data'' \<in> set TECHNICAL_SKILLS"
    by (simp add: TECHNICAL_SKILLS_def)
  from minimal_engine_degrades [OF h1 h2, of "''Big Data tools''"] h1 h2 h3 h4 b show ?thesis
    by metis
qed




text \<open>
  Claim C7. On the empty text, with an engine whose annotations are pieces of the text
  it is given, \<open>extract_skills\<close> returns the empty list, and the count built from it
  is 0.
\<close>

theorem empty_text_no_skills:
  assumes "annotations_within nlp []"
  shows "fst (extract_skills nlp []) = [] \<and>
         count (fst (skills_result nlp \<lparr>JobDescriptionItem.job_id = j, text = []\<rparr>)) = 0"
proof -
  have "set (fst (extract_skills nlp [])) = {}"
    using assms by (simp add: set_extract_skills extracted_empty_text)
  then have "fst (extract_skills nlp []) = []"
    by simp
  then show ?thesis
    by (simp add: skills_result_def case_prod_beta)
qed

theorem empty_text_no_skills_witness:
  "annotations_within whitespace_engine [] \<and> fst (extract_skills whitespace_engine []) = [] \<and>
   count (fst (skills_result whitespace_engine
                 \<lparr>JobDescriptionItem.job_id = ''7'', text = []\<rparr>)) = 0"
proof -
  have h: "annotations_within whitespace_engine []"
    by (simp add: annotations_within_def whitespace_engine_def str_split_def)
  from empty_text_no_skills [OF h] h show ?thesis
    by blast
qed

text \<open>
  Claim C8. For a batch that is not empty, the batch endpoint returns one result for each
  item whose text is not empty, in the order of the input, with the job id of the item,
  the skills extracted from its text and their number as count; the items with an empty
  text give no result and no error; \<open>total_processed\<close> is the number of results.
\<close>

theorem batch_one_result_per_text:
  assumes "job_descriptions \<noteq> []"
  shows "\<exists>response out.
           extract_skills_from_batch nlp job_descriptions = Inr (response, out) \<and>
           results response =
             map (\<lambda>jd. \<lparr>job_id = JobDescriptionItem.job_id jd,
                         skills = fst (extract_skills nlp (text jd)),
                         count = int (length (fst (extract_skills nlp (text jd))))\<rparr>)
                 (filter (\<lambda>jd. text jd \<noteq> []) job_descriptions) \<and>
           total_processed response = int (length (results response))"
  using assms
  by (simp add: extract_skills_from_batch_def fold_batch_step fst_skills_result)

theorem batch_one_result_per_text_witness:
  "[\<lparr>JobDescriptionItem.job_id = ''1'', text = ''We use Python and Docker''\<rparr>,
    \<lparr>JobDescriptionItem.job_id = ''2'', text = []\<rparr>,
    \<lparr>JobDescriptionItem.job_id = ''3'', text = ''Experience with PostgreSQL''\<rparr>] \<noteq> [] \<and>
   (\<exists>response out.
      extract_skills_from_batch whitespace_engine
        [\<lparr>JobDescriptionItem.job_id = ''1'', text = ''We use Python and Docker''\<rparr>,
         \<lparr>JobDescriptionItem.job_id = ''2'', text = []\<rparr>,
         \<lparr>JobDescriptionItem.job_id = ''3'', text = ''Experience with PostgreSQL''\<rparr>] =
        Inr (response, out) \<and>
      map SkillsResult.job_id (results response) = [''1'', ''3''] \<and>
      total_processed response = 2)"
proof -
  have h: "[\<lparr>JobDescriptionItem.job_id = ''1'', text = ''We use Python and Docker''\<rparr>,
    \<lparr>JobDescriptionItem.job_id = ''2'', text = []\<rparr>,
    \<lparr>JobDescriptionItem.job_id = ''3'', text = ''Experience with PostgreSQL''\<rparr>] \<noteq> []"
    by simp
  from batch_one_result_per_text [OF h, of whitespace_engine] h show ?thesis
    by auto
qed

text \<open>
  Claim C9. \<open>extract_skills\<close> is deterministic: two calls with the same engine, the
  same text and the same vocabulary return the same list and print the same lines,
  whatever the order in which each call iterates over the vocabulary set; and sorting any
  enumeration of the set of extracted skills gives the list that is returned.
\<close>

theorem extract_skills_order_irrelevant:
  "(set vs = set TECHNICAL_SKILLS \<and> set vs' = set TECHNICAL_SKILLS
      \<longrightarrow> extract_skills_iter vs nlp txt = extract_skills_iter vs' nlp txt) \<and>
   (distinct xs \<and> set xs = extracted TECHNICAL_SKILLS nlp txt
      \<longrightarrow> sort xs = fst (extract_skills nlp txt))"
proof (intro conjI impI)
  assume vs: "set vs = set TECHNICAL_SKILLS \<and> set vs' = set TECHNICAL_SKILLS"
  then have eq: "set vs = set vs'"
    by simp
  show "extract_skills_iter vs nlp txt = extract_skills_iter vs' nlp txt"
  proof (rule prod_eqI)
    show "fst (extract_skills_iter vs nlp txt) = fst (extract_skills_iter vs' nlp txt)"
      unfolding fst_extract_skills_iter extracted_cong [OF eq] ..
    show "snd (extract_skills_iter vs nlp txt) = snd (extract_skills_iter vs' nlp txt)"
      unfolding snd_extract_skills_iter ..
  qed
next
  assume xs: "distinct xs \<and> set xs = extracted TECHNICAL_SKILLS nlp txt"
  then have "sort xs = py_sorted (extracted TECHNICAL_SKILLS nlp txt)"
    using py_sorted_any_enumeration [of xs] by simp
  then show "sort xs = fst (extract_skills nlp txt)"
    by (simp add: extract_skills_def fst_extract_skills_iter)
qed

theorem extract_skills_order_irrelevant_witness:
  "set (rev TECHNICAL_SKILLS) = set TECHNICAL_SKILLS \<and>
   extract_skills_iter (rev TECHNICAL_SKILLS) entity_engine ''Apache Kafka Inc'' =
     extract_skills entity_engine ''Apache Kafka Inc'' \<and>
   distinct (rev (fst (extract_skills entity_engine ''Apache Kafka Inc''))) \<and>
   sort (rev (fst (extract_skills entity_engine ''Apache Kafka Inc''))) =
     fst (extract_skills entity_engine ''Apache Kafka Inc'')"
proof -
  have h: "set (rev TECHNICAL_SKILLS) = set TECHNICAL_SKILLS"
    by (rule set_rev)
  have d: "distinct (rev (fst (extract_skills entity_engine ''Apache Kafka Inc'')))"
    by (simp add: extract_skills_def fst_extract_skills_iter py_sorted_def)
  have s: "set (rev (fst (extract_skills entity_engine ''Apache Kafka Inc''))) =
             extracted TECHNICAL_SKILLS entity_engine ''Apache Kafka Inc''"
    by (simp add: set_extract_skills)
  from extract_skills_order_irrelevant
         [of "rev TECHNICAL_SKILLS" TECHNICAL_SKILLS entity_engine "''Apache Kafka Inc''"
             "rev (fst (extract_skills entity_engine ''Apache Kafka Inc''))"]
    h d s
  show ?thesis
    unfolding extract_skills_def by simp
qed



end
